theory Spec2Isabelle
  imports Main "HOL-Library.Sublist" "HOL-Library.AList" "HOL-Library.Char_ord"
    "HOL-Library.List_Lexorder"
begin

section \<open>Python values\<close>

text \<open>
  A decoded JSON document, as \<open>Response.json()\<close> returns it.  An object is given by
  the items of the Python dict, in insertion order (keys distinct).  A number is kept as
  its literal: no function below inspects the value of a number.
\<close>

datatype json =
    JNull
  | JBool bool
  | JNum string
  | JStr string
  | JArr "json list"
  | JObj "(string \<times> json) list"

text \<open>The instance fields of \<open>INEInvalidRequestError\<close> that \<open>__str__\<close> reads.\<close>

record ine_invalid_request =
  message :: string
  ine_errors :: "json list"

datatype error =
    HTTPError
  | JSONDecodeError
  | TypeError
  | KeyError
  | IndexError
  | ValueError
  | AttributeError
  | INEInvalidRequestError ine_invalid_request

text \<open>\<open>s.startswith(p)\<close>, \<open>s.endswith(p)\<close> and \<open>sub in s\<close> on strings.\<close>

definition startswith :: "string \<Rightarrow> string \<Rightarrow> bool" where
  "startswith s p = prefix p s"

definition endswith :: "string \<Rightarrow> string \<Rightarrow> bool" where
  "endswith s p = suffix p s"

definition str_contains :: "string \<Rightarrow> string \<Rightarrow> bool" where
  "str_contains s sub = sublist sub s"

text \<open>
  \<open>k in v\<close> for a string \<open>k\<close>: key membership on a dict, element equality on a list,
  substring on a string, and a TypeError on anything else.
\<close>

fun py_in :: "string \<Rightarrow> json \<Rightarrow> error + bool" where
  "py_in k (JObj items) = Inr (k \<in> set (map fst items))"
| "py_in k (JArr xs) = Inr (JStr k \<in> set xs)"
| "py_in k (JStr s) = Inr (str_contains s k)"
| "py_in k JNull = Inl TypeError"
| "py_in k (JBool b) = Inl TypeError"
| "py_in k (JNum n) = Inl TypeError"

text \<open>
  \<open>v[k]\<close> for a string \<open>k\<close>: the value on a dict (KeyError when absent), a TypeError on
  a list, a string and anything else.
\<close>

fun py_getitem :: "json \<Rightarrow> string \<Rightarrow> error + json" where
  "py_getitem (JObj items) k = (case map_of items k of None \<Rightarrow> Inl KeyError | Some v \<Rightarrow> Inr v)"
| "py_getitem (JArr xs) k = Inl TypeError"
| "py_getitem (JStr s) k = Inl TypeError"
| "py_getitem JNull k = Inl TypeError"
| "py_getitem (JBool b) k = Inl TypeError"
| "py_getitem (JNum n) k = Inl TypeError"

section \<open>models.py and exceptions.py: the response classifier\<close>

text \<open>
  A completed HTTP response: its status code and what \<open>json()\<close> gives, \<open>None\<close> when the
  body does not decode (\<open>json()\<close> raises).
\<close>

record response =
  status_code :: nat
  json_body :: "json option"

text \<open>
  \<open>Response.is_ine_error\<close>, on the decoded body: the truth value of
  \<open>isinstance(d, list) and d and "Sucesso" in d[0] and "Falso" in d[0]["Sucesso"]\<close>.
\<close>

definition is_ine_error :: "json \<Rightarrow> error + bool" where
  "is_ine_error response_data =
     (case response_data of
        JArr [] \<Rightarrow> Inr False
      | JArr (first # _) \<Rightarrow>
          (case py_in ''Sucesso'' first of
             Inl e \<Rightarrow> Inl e
           | Inr has_sucesso \<Rightarrow>
               if \<not> has_sucesso then Inr False
               else (case py_getitem first ''Sucesso'' of
                       Inl e \<Rightarrow> Inl e
                     | Inr sucesso \<Rightarrow> py_in ''Falso'' sucesso))
      | _ \<Rightarrow> Inr False)"

text \<open>
  \<open>INEInvalidRequestError.get_ine_errors\<close>: the same chain, then
  \<open>isinstance(d[0]["Sucesso"]["Falso"], list) and d[0]["Sucesso"]["Falso"]\<close>; the list when
  all hold, \<open>[]\<close> otherwise.
\<close>

definition get_ine_errors :: "json \<Rightarrow> error + json list" where
  "get_ine_errors response_data =
     (case response_data of
        JArr (first # _) \<Rightarrow>
          (case py_in ''Sucesso'' first of
             Inl e \<Rightarrow> Inl e
           | Inr has_sucesso \<Rightarrow>
               if \<not> has_sucesso then Inr []
               else (case py_getitem first ''Sucesso'' of
                       Inl e \<Rightarrow> Inl e
                     | Inr sucesso \<Rightarrow>
                         (case py_in ''Falso'' sucesso of
                            Inl e \<Rightarrow> Inl e
                          | Inr has_falso \<Rightarrow>
                              if \<not> has_falso then Inr []
                              else (case py_getitem sucesso ''Falso'' of
                                      Inl e \<Rightarrow> Inl e
                                    | Inr (JArr (x # xs)) \<Rightarrow> Inr (x # xs)
                                    | Inr _ \<Rightarrow> Inr []))))
      | _ \<Rightarrow> Inr [])"

text \<open>
  \<open>INEInvalidRequestError.__init__\<close>: stores the message and the result of
  \<open>get_ine_errors\<close>, whose exception, if any, replaces the one being built.
\<close>

definition INEInvalidRequestError_init :: "json \<Rightarrow> string \<Rightarrow> error + ine_invalid_request" where
  "INEInvalidRequestError_init response_data msg =
     (case get_ine_errors response_data of
        Inl e \<Rightarrow> Inl e
      | Inr errs \<Rightarrow> Inr \<lparr>message = msg, ine_errors = errs\<rparr>)"

definition default_message :: string where
  "default_message = ''INE returned an error.''"

text \<open>
  \<open>INEInvalidRequestError.__str__\<close>.  \<open>py_str\<close> is \<open>str()\<close> on a value that is not a
  string (how Python prints numbers, lists and dicts is not modelled); a string is
  formatted as itself.
\<close>

definition format_value :: "(json \<Rightarrow> string) \<Rightarrow> json \<Rightarrow> string" where
  "format_value py_str v = (case v of JStr s \<Rightarrow> s | _ \<Rightarrow> py_str v)"

definition INEInvalidRequestError_str :: "(json \<Rightarrow> string) \<Rightarrow> ine_invalid_request \<Rightarrow> error + string" where
  "INEInvalidRequestError_str py_str exc =
     (case ine_errors exc of
        [] \<Rightarrow> Inl IndexError
      | first # _ \<Rightarrow>
          (case py_in ''Msg'' first of
             Inl e \<Rightarrow> Inl e
           | Inr has_msg \<Rightarrow>
               if has_msg
               then (case py_getitem first ''Msg'' of
                       Inl e \<Rightarrow> Inl e
                     | Inr m \<Rightarrow> Inr (message exc @ '' Error: '' @ format_value py_str m))
               else Inr (message exc)))"

text \<open>
  \<open>Response.raise_for_status\<close>: first the inherited check (HTTPError on a status from
  400 to 599), then the semantic check on the decoded body.
\<close>

definition raise_for_status :: "response \<Rightarrow> error + unit" where
  "raise_for_status r =
     (if 400 \<le> status_code r \<and> status_code r < 600 then Inl HTTPError
      else (case json_body r of
              None \<Rightarrow> Inl JSONDecodeError
            | Some response_data \<Rightarrow>
                (case is_ine_error response_data of
                   Inl e \<Rightarrow> Inl e
                 | Inr failed \<Rightarrow>
                     if failed
                     then (case INEInvalidRequestError_init response_data default_message of
                             Inl e \<Rightarrow> Inl e
                           | Inr exc \<Rightarrow> Inl (INEInvalidRequestError exc))
                     else Inr ())))"

section \<open>api.py: period labels\<close>

text \<open>
  \<open>str.split()\<close> with no argument: the maximal runs of characters that are not
  whitespace.  A \<open>char\<close> is a code point below 256; the whitespace among those is
  9 to 13, 28 to 32, 133 and 160.
\<close>

definition isspace :: "char \<Rightarrow> bool" where
  "isspace c = ((of_char c :: nat) \<in> set [9, 10, 11, 12, 13, 28, 29, 30, 31, 32, 133, 160])"

fun split_from :: "string \<Rightarrow> string \<Rightarrow> string list" where
  "split_from word [] = (if word = [] then [] else [word])"
| "split_from word (c # cs) =
     (if isspace c then (if word = [] then split_from [] cs else word # split_from [] cs)
      else split_from (word @ [c]) cs)"

definition split :: "string \<Rightarrow> string list" where
  "split s = split_from [] s"

text \<open>A calendar date, as a pandas Timestamp at midnight.\<close>

record timestamp =
  ts_year :: nat
  ts_month :: nat
  ts_day :: nat

definition isdigit :: "char \<Rightarrow> bool" where
  "isdigit c = (48 \<le> (of_char c :: nat) \<and> (of_char c :: nat) \<le> 57)"

definition int_of_digits :: "string \<Rightarrow> nat" where
  "int_of_digits s = foldl (\<lambda>n c. 10 * n + ((of_char c :: nat) - 48)) 0 s"

text \<open>
  What the directive \<open>%m\<close> accepts: \<open>1[0-2]|0[1-9]|[1-9]\<close>, with nothing left over.
\<close>

definition parse_month :: "string \<Rightarrow> nat option" where
  "parse_month m =
     (if list_all isdigit m \<and> (length m = 1 \<or> length m = 2)
         \<and> 1 \<le> int_of_digits m \<and> int_of_digits m \<le> 12
      then Some (int_of_digits m) else None)"

text \<open>
  The first day of a month lies within the range of a nanosecond Timestamp
  (1677-09-21 to 2262-04-11).
\<close>

definition in_timestamp_range :: "nat \<Rightarrow> nat \<Rightarrow> bool" where
  "in_timestamp_range y m =
     ((1677 < y \<or> (y = 1677 \<and> 10 \<le> m)) \<and> (y < 2262 \<or> (y = 2262 \<and> m \<le> 4)))"

text \<open>
  \<open>pd.to_datetime(s, format="%Y-%m")\<close>, the library call of \<open>quarter_to_date\<close>:
  \<open>s\<close> has to be four digits, a hyphen and a month, and the result is the first day of
  that month.  A string that does not match raises ValueError, and so does a date out
  of the Timestamp range (OutOfBoundsDatetime is a ValueError).
\<close>

definition to_datetime_Y_m :: "string \<Rightarrow> error + timestamp" where
  "to_datetime_Y_m s =
     (if 5 < length s \<and> list_all isdigit (take 4 s) \<and> s ! 4 = CHR ''-''
      then (case parse_month (drop 5 s) of
              None \<Rightarrow> Inl ValueError
            | Some m \<Rightarrow>
                if in_timestamp_range (int_of_digits (take 4 s)) m
                then Inr \<lparr>ts_year = int_of_digits (take 4 s), ts_month = m, ts_day = 1\<rparr>
                else Inl ValueError)
      else Inl ValueError)"

definition quarter_month_map :: "(string \<times> string) list" where
  "quarter_month_map = [(''1st'', ''03''), (''2nd'', ''06''), (''3rd'', ''09''), (''4th'', ''12'')]"

text \<open>
  \<open>quarter_to_date\<close>: \<open>parts[0]\<close> is the quarter and \<open>parts[2]\<close> the year; either
  index raises IndexError when the label has fewer words.
\<close>

definition quarter_to_date :: "string \<Rightarrow> error + timestamp" where
  "quarter_to_date quarter_string =
     (case split quarter_string of
        quarter # _ # year # _ \<Rightarrow>
          to_datetime_Y_m
            (year @ ''-'' @ (case map_of quarter_month_map quarter of Some m \<Rightarrow> m | None \<Rightarrow> ''01''))
      | _ \<Rightarrow> Inl IndexError)"

section \<open>api.py: the request\<close>

definition INE_API_BASE_URL :: string where
  "INE_API_BASE_URL = ''https://www.ine.pt/ine/json_indicador''"

text \<open>\<open>sep.join(xs)\<close>.\<close>

fun join :: "string \<Rightarrow> string list \<Rightarrow> string" where
  "join sep [] = []"
| "join sep [x] = x"
| "join sep (x # y # ys) = x @ sep @ join sep (y # ys)"

text \<open>
  \<open>request\<close>.  \<open>dim_values\<close> is the caller's dict (its items, in order; \<open>None\<close> when
  not given), which the function may change: the result is the dict after the call
  together with what the call gives.  \<open>get\<close> is \<open>requests.get\<close> on a URL with the
  20-second timeout: the response, or the exception of the transport.
\<close>

definition request ::
  "(string \<Rightarrow> error + response) \<Rightarrow> string \<Rightarrow> string \<Rightarrow> (string \<times> string) list option
     \<Rightarrow> (string \<times> string) list option \<times> (error + response)" where
  "request get indicator_code data_type dim_values =
     (if data_type = ''data''
      then (case dim_values of
              None \<Rightarrow>
                (None,
                 get (INE_API_BASE_URL @ ''/pindica.jsp?op=2&varcd='' @ indicator_code
                      @ ''&lang=EN&'' @ ''Dim1=T''))
            | Some d \<Rightarrow>
                (let d' = (if ''Dim1'' \<in> fst ` set d then d else AList.update ''Dim1'' ''T'' d);
                     dim_values_str = join ''&'' (map (\<lambda>(key, value). key @ ''='' @ value) d')
                 in (Some d',
                     get (INE_API_BASE_URL @ ''/pindica.jsp?op=2&varcd='' @ indicator_code
                          @ ''&lang=EN&'' @ dim_values_str))))
      else if data_type = ''metadata''
      then (dim_values,
            get (INE_API_BASE_URL @ ''/pindicaMeta.jsp?varcd='' @ indicator_code @ ''&lang=EN''))
      else (dim_values, Inl ValueError))"

section \<open>api.py: the column axis\<close>

text \<open>
  The part of the metadata payload that \<open>get_indicator\<close> reads under "Dimensoes":
  the dimension descriptors ("Descricao_Dim") and the list "Categoria_Dim", whose first
  element maps each encoded key to a list of category records.
\<close>

record dim_description =
  dim_num :: string
  abrv :: string

record category =
  categ_dsg :: string

record dimensoes =
  Descricao_Dim :: "dim_description list"
  Categoria_Dim :: "(string \<times> category list) list list"

text \<open>
  The inner loop of \<open>get_indicator\<close> for one dimension: the labels, in the order of the
  items, of the keys that start with \<open>Dim_Num{dim_num}\<close> and, when \<open>dim_values\<close> has the
  key \<open>Dim{dim_num}\<close>, end with \<open>_{dim_value}\<close>.  \<open>value[0]\<close> raises IndexError on an
  empty list.
\<close>

definition retained :: "(string \<times> string) list \<Rightarrow> string \<Rightarrow> string \<Rightarrow> bool" where
  "retained dim_values dn key =
     (startswith key (''Dim_Num'' @ dn) \<and>
      (case map_of dim_values (''Dim'' @ dn) of
         Some dim_value \<Rightarrow> endswith key (''_'' @ dim_value)
       | None \<Rightarrow> True))"

fun dim_columns ::
  "(string \<times> category list) list \<Rightarrow> (string \<times> string) list \<Rightarrow> string \<Rightarrow> error + string list" where
  "dim_columns [] dim_values dn = Inr []"
| "dim_columns ((key, val) # items) dim_values dn =
     (if retained dim_values dn key
      then (case val of
              [] \<Rightarrow> Inl IndexError
            | c # _ \<Rightarrow>
                (case dim_columns items dim_values dn of
                   Inl e \<Rightarrow> Inl e
                 | Inr cols \<Rightarrow> Inr (categ_dsg c # cols)))
      else dim_columns items dim_values dn)"

text \<open>
  The outer loop: a descriptor whose \<open>dim_num\<close> is "1" is skipped; every other one
  contributes its labels to \<open>col_index_iterables\<close> and its abbreviation to
  \<open>col_index_names\<close>.  \<open>Categoria_Dim[0]\<close> raises IndexError on an empty list.
\<close>

fun col_index_loop ::
  "(string \<times> category list) list list \<Rightarrow> (string \<times> string) list \<Rightarrow> dim_description list
     \<Rightarrow> error + (string list list \<times> string list)" where
  "col_index_loop categoria dim_values [] = Inr ([], [])"
| "col_index_loop categoria dim_values (dim_description # rest) =
     (if dim_num dim_description = ''1'' then col_index_loop categoria dim_values rest
      else (case categoria of
              [] \<Rightarrow> Inl IndexError
            | items # _ \<Rightarrow>
                (case dim_columns items dim_values (dim_num dim_description) of
                   Inl e \<Rightarrow> Inl e
                 | Inr cols \<Rightarrow>
                     (case col_index_loop categoria dim_values rest of
                        Inl e \<Rightarrow> Inl e
                      | Inr (iterables, names) \<Rightarrow>
                          Inr (cols # iterables, abrv dim_description # names)))))"

text \<open>
  A column axis: the names of its levels and its labels, one tuple per column.
  \<open>MultiIndex.from_product\<close> gives the Cartesian product of the iterables, the first
  one varying slowest, and refuses an empty list of iterables with a ValueError.
\<close>

record multi_index =
  level_names :: "string list"
  tuples :: "string list list"

definition from_product :: "string list list \<Rightarrow> error + string list list" where
  "from_product iterables = (if iterables = [] then Inl ValueError else Inr (product_lists iterables))"

text \<open>
  \<open>col_index\<close> as \<open>get_indicator\<close> builds it: the product of \<open>col_index_iterables\<close>, its
  levels named \<open>["Location"] + col_index_names[1:]\<close>.
\<close>

definition col_index :: "dimensoes \<Rightarrow> (string \<times> string) list \<Rightarrow> error + multi_index" where
  "col_index dims dim_values =
     (case col_index_loop (Categoria_Dim dims) dim_values (Descricao_Dim dims) of
        Inl e \<Rightarrow> Inl e
      | Inr (col_index_iterables, col_index_names) \<Rightarrow>
          (case from_product col_index_iterables of
             Inl e \<Rightarrow> Inl e
           | Inr ts \<Rightarrow> Inr \<lparr>level_names = ''Location'' # drop 1 col_index_names, tuples = ts\<rparr>))"

text \<open>
  The categories kept for a dimension, as items of "Categoria_Dim[0]": the factor the
  dimension contributes to the product is their number.
\<close>

definition retained_items ::
  "(string \<times> category list) list \<Rightarrow> (string \<times> string) list \<Rightarrow> string \<Rightarrow> (string \<times> category list) list" where
  "retained_items items dim_values dn = filter (\<lambda>(key, val). retained dim_values dn key) items"

text \<open>
  The label that the loop takes from a kept item, \<open>value[0]["categ_dsg"]\<close>, and the
  descriptors that the outer loop does not skip.
\<close>

definition label_of :: "string \<times> category list \<Rightarrow> string \<Rightarrow> bool" where
  "label_of item l = (case snd item of [] \<Rightarrow> False | c # _ \<Rightarrow> l = categ_dsg c)"

definition not_dim1 :: "dim_description list \<Rightarrow> dim_description list" where
  "not_dim1 descs = filter (\<lambda>d. dim_num d \<noteq> ''1'') descs"

text \<open>
  A metadata payload in the shape the service sends: the reference period is dimension
  1, the geography dimension 2, and one further dimension.
\<close>

definition example_dimensoes :: dimensoes where
  "example_dimensoes =
     \<lparr>Descricao_Dim =
        [\<lparr>dim_num = ''1'', abrv = ''Data reference period''\<rparr>,
         \<lparr>dim_num = ''2'', abrv = ''Place of residence''\<rparr>,
         \<lparr>dim_num = ''3'', abrv = ''Sex''\<rparr>],
      Categoria_Dim =
        [[(''Dim_Num1_S7A2011'', [\<lparr>categ_dsg = ''2011''\<rparr>]),
          (''Dim_Num2_PT'', [\<lparr>categ_dsg = ''Portugal''\<rparr>]),
          (''Dim_Num3_T'', [\<lparr>categ_dsg = ''MF''\<rparr>]),
          (''Dim_Num3_1'', [\<lparr>categ_dsg = ''M''\<rparr>])]]\<rparr>"

section \<open>api.py: the table\<close>

text \<open>
  A DataFrame whose columns are a MultiIndex: the row labels (the raw period labels
  while the table is built, dates afterwards), the names of the column levels, the
  column labels and the cells that hold a value (any other cell is NaN).
\<close>

record 'r dataframe =
  row_index :: "'r list"
  column_names :: "string list"
  columns :: "string list list"
  cells :: "'r \<times> string list \<Rightarrow> string option"

text \<open>
  \<open>pd.DataFrame(index=..., columns=col_index)\<close> followed by
  \<open>df.sort_index(axis=1, inplace=True)\<close>: no cell holds a value, and the columns are in
  lexicographic order.
\<close>

definition new_dataframe :: "string list \<Rightarrow> multi_index \<Rightarrow> string dataframe" where
  "new_dataframe rows ax =
     \<lparr>row_index = rows, column_names = level_names ax, columns = sort (tuples ax),
      cells = (\<lambda>_. None)\<rparr>"

text \<open>
  \<open>df.loc[row, key] = v\<close> for a row label of the frame and a tuple \<open>key\<close>, as pandas
  assigns by label.  A key with one component per level addresses the columns with that
  label; when there is none, the frame is enlarged by a column with that label.  A shorter
  key addresses every column that starts with it and raises KeyError when there is none;
  a longer key raises KeyError.
\<close>

definition loc_setitem ::
  "string dataframe \<Rightarrow> string \<Rightarrow> string list \<Rightarrow> string \<Rightarrow> error + string dataframe" where
  "loc_setitem df row key v =
     (if length key = length (column_names df)
      then (if key \<in> set (columns df)
            then Inr (df\<lparr>cells := (cells df)((row, key) \<mapsto> v)\<rparr>)
            else Inr (df\<lparr>columns := columns df @ [key], cells := (cells df)((row, key) \<mapsto> v)\<rparr>))
      else if length key < length (column_names df)
      then (if list_ex (\<lambda>c. take (length key) c = key) (columns df)
            then Inr (df\<lparr>cells := (\<lambda>(r, c). if r = row \<and> take (length key) c = key \<and> c \<in> set (columns df)
                                              then Some v else cells df (r, c))\<rparr>)
            else Inl KeyError)
      else Inl KeyError)"

text \<open>\<open>str(i)\<close> for a natural number.\<close>

fun str_nat :: "nat \<Rightarrow> string" where
  "str_nat n =
     (if n < 10 then [''0123456789'' ! n] else str_nat (n div 10) @ [''0123456789'' ! (n mod 10)])"

declare str_nat.simps [simp del]

text \<open>
  A stat record is a dict of strings.  Its column key is
  \<open>(stat['geocod'],) + tuple(stat[f"dim_{i}_t"] for i in range(3, n + 1))\<close>, where \<open>n\<close> is
  the number of dimension descriptors; a missing field raises KeyError.
\<close>

fun lookup_all :: "(string \<times> string) list \<Rightarrow> string list \<Rightarrow> error + string list" where
  "lookup_all stat [] = Inr []"
| "lookup_all stat (k # ks) =
     (case map_of stat k of
        None \<Rightarrow> Inl KeyError
      | Some v \<Rightarrow> (case lookup_all stat ks of Inl e \<Rightarrow> Inl e | Inr vs \<Rightarrow> Inr (v # vs)))"

definition stat_key :: "nat \<Rightarrow> (string \<times> string) list \<Rightarrow> error + string list" where
  "stat_key n stat =
     lookup_all stat (''geocod'' # map (\<lambda>i. ''dim_'' @ str_nat i @ ''_t'') [3 ..< n + 1])"

text \<open>
  The two loops that fill the table: every record of every period gets its column key,
  and, when it has the field "valor", is assigned at (period, key).
\<close>

fun fill_period ::
  "nat \<Rightarrow> string \<Rightarrow> string dataframe \<Rightarrow> (string \<times> string) list list
     \<Rightarrow> error + string dataframe" where
  "fill_period n date df [] = Inr df"
| "fill_period n date df (stat # period_stats) =
     (case stat_key n stat of
        Inl e \<Rightarrow> Inl e
      | Inr key \<Rightarrow>
          (case map_of stat ''valor'' of
             None \<Rightarrow> fill_period n date df period_stats
           | Some v \<Rightarrow>
               (case loc_setitem df date key v of
                  Inl e \<Rightarrow> Inl e
                | Inr df' \<Rightarrow> fill_period n date df' period_stats)))"

fun fill_table ::
  "nat \<Rightarrow> string dataframe \<Rightarrow> (string \<times> (string \<times> string) list list) list
     \<Rightarrow> error + string dataframe" where
  "fill_table n df [] = Inr df"
| "fill_table n df ((date, period_stats) # dados) =
     (case fill_period n date df period_stats of
        Inl e \<Rightarrow> Inl e
      | Inr df' \<Rightarrow> fill_table n df' dados)"

text \<open>
  The table of \<open>get_indicator\<close> before its row labels are turned into dates: the frame
  over the periods of "Dados" and the column axis, filled from the records.
\<close>

definition build_table ::
  "dimensoes \<Rightarrow> (string \<times> string) list \<Rightarrow> (string \<times> (string \<times> string) list list) list
     \<Rightarrow> error + string dataframe" where
  "build_table dims dim_values dados =
     (case col_index dims dim_values of
        Inl e \<Rightarrow> Inl e
      | Inr ax \<Rightarrow>
          fill_table (length (Descricao_Dim dims)) (new_dataframe (map fst dados) ax) dados)"

text \<open>
  The table once more, as a list of assignments: the one assignment that a record with
  a "valor" makes at (period, column key), those of a period and of all periods in the
  order of the loops, and the columns after the keys of a list of assignments have been
  added where they are missing.
\<close>

definition record_assignment ::
  "nat \<Rightarrow> string \<Rightarrow> (string \<times> string) list \<Rightarrow> ((string \<times> string list) \<times> string) list" where
  "record_assignment n date stat =
     (case stat_key n stat of
        Inl e \<Rightarrow> []
      | Inr key \<Rightarrow> (case map_of stat ''valor'' of None \<Rightarrow> [] | Some v \<Rightarrow> [((date, key), v)]))"

definition period_assignments ::
  "nat \<Rightarrow> string \<Rightarrow> (string \<times> string) list list \<Rightarrow> ((string \<times> string list) \<times> string) list" where
  "period_assignments n date period_stats = concat (map (record_assignment n date) period_stats)"

definition assignments ::
  "nat \<Rightarrow> (string \<times> (string \<times> string) list list) list \<Rightarrow> ((string \<times> string list) \<times> string) list" where
  "assignments n dados = concat (map (\<lambda>(date, period_stats). period_assignments n date period_stats) dados)"

definition enlarge :: "string list list \<Rightarrow> string list list \<Rightarrow> string list list" where
  "enlarge cols keys = fold (\<lambda>key cs. if key \<in> set cs then cs else cs @ [key]) keys cols"

text \<open>
  A data payload for it: one period with one record, whose geography is given by its
  code.
\<close>

definition example_dados :: "(string \<times> (string \<times> string) list list) list" where
  "example_dados =
     [(''2011'',
       [[(''geocod'', ''PT''), (''geodsg'', ''Portugal''), (''dim_3'', ''T''), (''dim_3_t'', ''MF''),
         (''valor'', ''10295909'')]])]"

section \<open>api.py: the merged metadata\<close>











text \<open>
  The last step: \<open>geo_level\<close> from \<open>merged_metadata["description"]\<close>, the marker of 2013
  being looked for first.
\<close>

definition add_geo_level :: "(string \<times> json) list \<Rightarrow> error + (string \<times> json) list" where
  "add_geo_level merged =
     (case py_getitem (JObj merged) ''description'' of
        Inl e \<Rightarrow> Inl e
      | Inr description \<Rightarrow>
          (case py_in ''(NUTS - 2013)'' description of
             Inl e \<Rightarrow> Inl e
           | Inr is_2013 \<Rightarrow>
               if is_2013 then Inr (AList.update ''geo_level'' (JStr ''nuts-2013'') merged)
               else (case py_in ''(NUTS - 2002)'' description of
                       Inl e \<Rightarrow> Inl e
                     | Inr is_2002 \<Rightarrow>
                         if is_2002 then Inr (AList.update ''geo_level'' (JStr ''nuts-2002'') merged)
                         else Inr (AList.update ''geo_level'' (JStr ''national'') merged))))"




section \<open>models.py: the export\<close>











section \<open>Properties of the response classifier\<close>

lemma map_of_key: "map_of items k = Some v \<Longrightarrow> k \<in> fst ` set items"
  by (metis domI dom_map_of_conv_image_fst)

lemma is_ine_error_obj:
  "map_of items ''Sucesso'' = Some (JObj sucesso) \<Longrightarrow>
   is_ine_error (JArr (JObj items # rest)) = Inr (''Falso'' \<in> fst ` set sucesso)"
  by (simp add: is_ine_error_def map_of_key)

lemma get_ine_errors_obj:
  "map_of items ''Sucesso'' = Some (JObj sucesso) \<Longrightarrow>
   map_of sucesso ''Falso'' = Some (JArr (e # es)) \<Longrightarrow>
   get_ine_errors (JArr (JObj items # rest)) = Inr (e # es)"
  by (simp add: get_ine_errors_def map_of_key)

lemma str_contains_tail: "str_contains (a @ b @ m) m"
  unfolding str_contains_def by (metis append.assoc sublist_append_leftI)

text \<open>
  C1.  On a status-200 response whose body is \<open>[{"Sucesso": {"Falso": []}}]\<close>, the
  failure list is present but empty, and \<open>raise_for_status\<close> still raises
  INEInvalidRequestError: \<open>is_ine_error\<close> only tests that the key "Falso" is there,
  while \<open>get_ine_errors\<close> also asks for a non-empty list.  The exception raised carries
  no error record, and its \<open>__str__\<close> fails with an IndexError on \<open>ine_errors[0]\<close>.
\<close>

theorem raise_for_status_empty_failure_list:
  "raise_for_status
     \<lparr>status_code = 200,
      json_body = Some (JArr [JObj [(''Sucesso'', JObj [(''Falso'', JArr [])])]])\<rparr>
   = Inl (INEInvalidRequestError \<lparr>message = ''INE returned an error.'', ine_errors = []\<rparr>)
   \<and> INEInvalidRequestError_str py_str \<lparr>message = ''INE returned an error.'', ine_errors = []\<rparr>
     = Inl IndexError"
  by (simp add: raise_for_status_def is_ine_error_def INEInvalidRequestError_init_def
      get_ine_errors_def default_message_def INEInvalidRequestError_str_def)

lemma get_ine_errors_dict:
  assumes "map_of items ''Sucesso'' = Some (JObj sucesso)"
  shows "\<exists>errs. get_ine_errors (JArr (JObj items # rest)) = Inr errs"
proof (cases "map_of sucesso ''Falso''")
  case None
  then have "''Falso'' \<notin> fst ` set sucesso" by (simp add: map_of_eq_None_iff)
  with assms show ?thesis by (simp add: get_ine_errors_def map_of_key)
next
  case (Some f)
  then have "''Falso'' \<in> fst ` set sucesso" by (rule map_of_key)
  with assms Some show ?thesis
    by (simp add: get_ine_errors_def map_of_key split: json.splits list.splits)
qed

lemma init_not_semantic_error:
  "INEInvalidRequestError_init body msg \<noteq> Inl (INEInvalidRequestError exc)"
proof -
  have "get_ine_errors body \<noteq> Inl (INEInvalidRequestError exc)"
  proof (cases body)
    case (JArr xs)
    show ?thesis
    proof (cases xs)
      case Nil
      with JArr show ?thesis by (simp add: get_ine_errors_def)
    next
      case (Cons x rest)
      have a: "py_in k v \<noteq> Inl (INEInvalidRequestError exc)" for k v
        by (cases v) simp_all
      have b: "py_getitem v k \<noteq> Inl (INEInvalidRequestError exc)" for k v
        by (cases v) (simp_all split: option.splits)
      show ?thesis
        unfolding JArr Cons get_ine_errors_def
        using a b
        by (auto split: sum.splits if_splits json.splits list.splits)
    qed
  qed (simp_all add: get_ine_errors_def)
  then show ?thesis
    by (auto simp add: INEInvalidRequestError_init_def split: sum.splits)
qed


lemma is_ine_error_True:
  assumes "is_ine_error body = Inr True" and "get_ine_errors body = Inr errs"
  shows "\<exists>items rest sucesso. body = JArr (JObj items # rest)
           \<and> map_of items ''Sucesso'' = Some (JObj sucesso) \<and> ''Falso'' \<in> fst ` set sucesso"
proof (cases body)
  case (JArr xs)
  show ?thesis
  proof (cases xs)
    case Nil
    with JArr assms show ?thesis by (simp add: is_ine_error_def)
  next
    case (Cons x rest)
    show ?thesis
    proof (cases x)
      case (JObj items)
      show ?thesis
      proof (cases "map_of items ''Sucesso''")
        case None
        then have "''Sucesso'' \<notin> fst ` set items" by (simp add: map_of_eq_None_iff)
        with assms show ?thesis by (simp add: JArr Cons JObj is_ine_error_def)
      next
        case (Some s)
        then have k: "''Sucesso'' \<in> fst ` set items" by (rule map_of_key)
        show ?thesis
        proof (cases s)
          case (JObj sucesso)
          with assms Some k show ?thesis
            by (simp add: JArr Cons \<open>x = JObj items\<close> is_ine_error_def)
        next
          case (JArr ys)
          with assms Some k show ?thesis
            by (simp add: \<open>body = JArr xs\<close> Cons JObj is_ine_error_def get_ine_errors_def)
        next
          case (JStr t)
          with assms Some k show ?thesis
            by (simp add: JArr Cons JObj is_ine_error_def get_ine_errors_def)
        qed (use assms Some k in \<open>simp_all add: JArr Cons JObj is_ine_error_def\<close>)
      qed
    next
      case (JArr ys)
      with assms show ?thesis
        by (auto simp add: \<open>body = JArr xs\<close> Cons is_ine_error_def split: if_splits)
    next
      case (JStr t)
      with assms show ?thesis
        by (auto simp add: JArr Cons is_ine_error_def split: if_splits)
    qed (use assms in \<open>simp_all add: JArr Cons is_ine_error_def\<close>)
  qed
qed (use assms in \<open>simp_all add: is_ine_error_def\<close>)

text \<open>
  What the code does in general: a semantic failure is raised exactly when the status is
  not an HTTP error and the body is a list whose first element is an object with a
  "Sucesso" object that has the key "Falso", whatever is under that key.
\<close>

lemma raise_for_status_semantic_iff:
  "(\<exists>exc. raise_for_status r = Inl (INEInvalidRequestError exc)) \<longleftrightarrow>
   (\<not> (400 \<le> status_code r \<and> status_code r < 600) \<and>
    (\<exists>items rest sucesso. json_body r = Some (JArr (JObj items # rest)) \<and>
        map_of items ''Sucesso'' = Some (JObj sucesso) \<and> ''Falso'' \<in> fst ` set sucesso))"
proof
  assume "\<exists>exc. raise_for_status r = Inl (INEInvalidRequestError exc)"
  then obtain exc where raised: "raise_for_status r = Inl (INEInvalidRequestError exc)" by blast
  then have status: "\<not> (400 \<le> status_code r \<and> status_code r < 600)"
    by (auto simp add: raise_for_status_def split: if_splits)
  with raised obtain body where body: "json_body r = Some body"
    by (cases "json_body r") (auto simp add: raise_for_status_def)
  have no_a: "py_in k v \<noteq> Inl (INEInvalidRequestError exc)" for k v
    by (cases v) simp_all
  have no_b: "py_getitem v k \<noteq> Inl (INEInvalidRequestError exc)" for k v
    by (cases v) (simp_all split: option.splits)
  have no_c: "is_ine_error body \<noteq> Inl (INEInvalidRequestError exc)"
    using no_a no_b
    by (auto simp add: is_ine_error_def split: json.splits list.splits sum.splits if_splits)
  from raised status body no_c init_not_semantic_error [of body default_message exc]
  have "is_ine_error body = Inr True \<and> (\<exists>errs. get_ine_errors body = Inr errs)"
    by (auto simp add: raise_for_status_def INEInvalidRequestError_init_def split: sum.splits if_splits)
  with is_ine_error_True body status show
    "\<not> (400 \<le> status_code r \<and> status_code r < 600) \<and>
    (\<exists>items rest sucesso. json_body r = Some (JArr (JObj items # rest)) \<and>
        map_of items ''Sucesso'' = Some (JObj sucesso) \<and> ''Falso'' \<in> fst ` set sucesso)"
    by blast
next
  assume r: "\<not> (400 \<le> status_code r \<and> status_code r < 600) \<and>
    (\<exists>items rest sucesso. json_body r = Some (JArr (JObj items # rest)) \<and>
        map_of items ''Sucesso'' = Some (JObj sucesso) \<and> ''Falso'' \<in> fst ` set sucesso)"
  then obtain items rest sucesso where body: "json_body r = Some (JArr (JObj items # rest))"
    and s: "map_of items ''Sucesso'' = Some (JObj sucesso)" and f: "''Falso'' \<in> fst ` set sucesso"
    by blast
  from get_ine_errors_dict [OF s] obtain errs where
    "get_ine_errors (JArr (JObj items # rest)) = Inr errs" by blast
  with r body s f show "\<exists>exc. raise_for_status r = Inl (INEInvalidRequestError exc)"
    by (simp add: raise_for_status_def is_ine_error_obj INEInvalidRequestError_init_def)
qed

text \<open>
  C7.  When the status is not an HTTP error and the body is a list whose first element
  has a "Sucesso" object with a non-empty "Falso" list whose first entry is an error
  record, \<open>raise_for_status\<close> raises INEInvalidRequestError, and the string form of that
  exception is the base message followed by \<open>" Error: "\<close> and the record's "Msg" when the
  record has one (so it includes that message), and the base message alone when it has
  none.
\<close>

theorem semantic_failure_str:
  assumes "\<not> (400 \<le> status_code r \<and> status_code r < 600)"
    and "json_body r = Some (JArr (JObj items # rest))"
    and "map_of items ''Sucesso'' = Some (JObj sucesso)"
    and "map_of sucesso ''Falso'' = Some (JArr (JObj err # errs))"
  shows "\<exists>exc s. raise_for_status r = Inl (INEInvalidRequestError exc)
     \<and> INEInvalidRequestError_str py_str exc = Inr s
     \<and> (case map_of err ''Msg'' of
          Some m \<Rightarrow> s = default_message @ '' Error: '' @ format_value py_str m
                    \<and> str_contains s (format_value py_str m)
        | None \<Rightarrow> s = default_message)"
proof -
  let ?exc = "\<lparr>message = default_message, ine_errors = JObj err # errs\<rparr>"
  have raised: "raise_for_status r = Inl (INEInvalidRequestError ?exc)"
    using assms
    by (simp add: raise_for_status_def is_ine_error_obj get_ine_errors_obj map_of_key
        INEInvalidRequestError_init_def)
  show ?thesis
  proof (cases "map_of err ''Msg''")
    case None
    then have "''Msg'' \<notin> fst ` set err"
      by (simp add: map_of_eq_None_iff)
    then have "INEInvalidRequestError_str py_str ?exc = Inr default_message"
      by (simp add: INEInvalidRequestError_str_def)
    with raised None show ?thesis by simp
  next
    case (Some m)
    then have "''Msg'' \<in> fst ` set err"
      by (rule map_of_key)
    with Some have "INEInvalidRequestError_str py_str ?exc
        = Inr (default_message @ '' Error: '' @ format_value py_str m)"
      by (simp add: INEInvalidRequestError_str_def)
    moreover have "str_contains (default_message @ '' Error: '' @ format_value py_str m)
        (format_value py_str m)"
      by (rule str_contains_tail)
    ultimately show ?thesis using raised Some by simp
  qed
qed

theorem semantic_failure_str_witness:
  "\<exists>exc. raise_for_status
       \<lparr>status_code = 200,
        json_body = Some (JArr [JObj [(''Sucesso'', JObj [(''Falso'', JArr [JObj [(''Msg'', JStr ''bad code'')]])])]])\<rparr>
       = Inl (INEInvalidRequestError exc)
     \<and> INEInvalidRequestError_str (\<lambda>v. []) exc = Inr ''INE returned an error. Error: bad code''"
proof -
  have "\<exists>exc s. raise_for_status
       \<lparr>status_code = 200,
        json_body = Some (JArr [JObj [(''Sucesso'', JObj [(''Falso'', JArr [JObj [(''Msg'', JStr ''bad code'')]])])]])\<rparr>
       = Inl (INEInvalidRequestError exc)
     \<and> INEInvalidRequestError_str (\<lambda>v. []) exc = Inr s
     \<and> s = ''INE returned an error. Error: bad code''
     \<and> str_contains s ''bad code''"
    using semantic_failure_str
      [of "\<lparr>status_code = 200,
          json_body = Some (JArr [JObj [(''Sucesso'', JObj [(''Falso'', JArr [JObj [(''Msg'', JStr ''bad code'')]])])]])\<rparr>"
          "[(''Sucesso'', JObj [(''Falso'', JArr [JObj [(''Msg'', JStr ''bad code'')]])])]" "[]"
          "[(''Falso'', JArr [JObj [(''Msg'', JStr ''bad code'')]])]"
          "[(''Msg'', JStr ''bad code'')]" "[]" "\<lambda>v. []"]
    by (simp add: default_message_def format_value_def)
  then show ?thesis by blast
qed

section \<open>Properties of the period labels\<close>

lemma month_of_quarter:
  "(case map_of quarter_month_map q of Some m \<Rightarrow> m | None \<Rightarrow> ''01'') =
     (if q = ''1st'' then ''03'' else if q = ''2nd'' then ''06'' else if q = ''3rd'' then ''09''
      else if q = ''4th'' then ''12'' else ''01'')"
  by (simp add: quarter_month_map_def)

lemma to_datetime_Y_m_ok:
  assumes "length y = 4" "list_all isdigit y" "1678 \<le> int_of_digits y" "int_of_digits y \<le> 2261"
    and "parse_month mm = Some m"
  shows "to_datetime_Y_m (y @ ''-'' @ mm) = Inr \<lparr>ts_year = int_of_digits y, ts_month = m, ts_day = 1\<rparr>"
proof -
  from assms(5) have "mm \<noteq> []"
    by (auto simp add: parse_month_def split: if_splits)
  then have "5 < length (y @ ''-'' @ mm)"
    using assms(1) by (cases mm) simp_all
  moreover have "take 4 (y @ ''-'' @ mm) = y" "drop 5 (y @ ''-'' @ mm) = mm" "(y @ ''-'' @ mm) ! 4 = CHR ''-''"
    using assms(1) by (simp_all add: nth_append)
  moreover have "in_timestamp_range (int_of_digits y) m"
    using assms(3,4) by (simp add: in_timestamp_range_def)
  ultimately show ?thesis
    using assms(2,5) by (simp add: to_datetime_Y_m_def)
qed

lemma hyphen_not_digits: "CHR ''-'' \<in> set s \<Longrightarrow> \<not> list_all isdigit s"
proof -
  have "\<not> isdigit (CHR ''-'')" by (simp add: isdigit_def)
  then show "CHR ''-'' \<in> set s \<Longrightarrow> \<not> list_all isdigit s"
    by (auto simp add: list_all_iff)
qed

lemma to_datetime_Y_m_bad_year:
  assumes "\<not> (length y = 4 \<and> list_all isdigit y)"
  shows "to_datetime_Y_m (y @ ''-'' @ mm) = Inl ValueError"
proof -
  define s where "s = y @ ''-'' @ mm"
  consider "length y < 4" | "length y = 4" "\<not> list_all isdigit y" | "4 < length y"
    using assms by linarith
  then have "\<not> list_all isdigit (take 4 s) \<or> parse_month (drop 5 s) = None"
  proof cases
    case 1
    then have "CHR ''-'' \<in> set (take 4 s)"
      by (simp add: s_def take_Cons')
    then show ?thesis
      by (simp add: hyphen_not_digits)
  next
    case 2
    then show ?thesis by (simp add: s_def)
  next
    case 3
    then have "drop 5 s = drop 5 y @ ''-'' @ mm" by (simp add: s_def)
    then have "CHR ''-'' \<in> set (drop 5 s)" by simp
    then have "\<not> list_all isdigit (drop 5 s)"
      by (rule hyphen_not_digits)
    then show ?thesis
      by (simp add: parse_month_def)
  qed
  then have "to_datetime_Y_m s = Inl ValueError"
    by (auto simp add: to_datetime_Y_m_def)
  then show ?thesis by (simp only: s_def)
qed

lemma parse_month_values:
  "parse_month ''03'' = Some 3" "parse_month ''06'' = Some 6" "parse_month ''09'' = Some 9"
  "parse_month ''12'' = Some 12" "parse_month ''01'' = Some 1"
  by (simp_all add: parse_month_def isdigit_def int_of_digits_def)

text \<open>
  C5, as the code has it.  \<open>quarter_to_date\<close> takes the quarter from the first word of
  the label and the year from the third.  When the third word is a four-digit year (from
  1678 to 2261, so that every month of it is a Timestamp), as in "2nd Quarter 2021", the
  result is the first day of March, June, September or December of that year for the
  first words 1st, 2nd, 3rd and 4th, and of January for any other first word.  When the
  third word is not four digits, as the "of" of "2nd quarter of 2021", the conversion
  raises ValueError.
\<close>

theorem quarter_to_date_third_word:
  assumes "split label = q # w # y # rest"
  shows "(length y = 4 \<and> list_all isdigit y \<and> 1678 \<le> int_of_digits y \<and> int_of_digits y \<le> 2261 \<longrightarrow>
           quarter_to_date label =
             Inr \<lparr>ts_year = int_of_digits y,
                  ts_month = (if q = ''1st'' then 3 else if q = ''2nd'' then 6 else if q = ''3rd'' then 9
                              else if q = ''4th'' then 12 else 1),
                  ts_day = 1\<rparr>)
       \<and> (\<not> (length y = 4 \<and> list_all isdigit y) \<longrightarrow> quarter_to_date label = Inl ValueError)"
proof -
  have q2d: "quarter_to_date label = to_datetime_Y_m (y @ ''-'' @
      (if q = ''1st'' then ''03'' else if q = ''2nd'' then ''06'' else if q = ''3rd'' then ''09''
       else if q = ''4th'' then ''12'' else ''01''))"
    using assms by (simp only: quarter_to_date_def list.case month_of_quarter)
  show ?thesis
    unfolding q2d
    by (auto simp add: to_datetime_Y_m_ok parse_month_values to_datetime_Y_m_bad_year
        simp del: append.simps)
qed

theorem quarter_to_date_third_word_witness:
  "quarter_to_date ''2nd Quarter 2021'' = Inr \<lparr>ts_year = 2021, ts_month = 6, ts_day = 1\<rparr>
   \<and> quarter_to_date ''2nd quarter of 2021'' = Inl ValueError"
proof -
  have a: "split ''2nd Quarter 2021'' = [''2nd'', ''Quarter'', ''2021'']"
    and b: "split ''2nd quarter of 2021'' = [''2nd'', ''quarter'', ''of'', ''2021'']"
    by (simp_all add: split_def isspace_def)
  show ?thesis
    using quarter_to_date_third_word [OF a] quarter_to_date_third_word [OF b]
    by (simp add: isdigit_def int_of_digits_def)
qed

text \<open>
  C5, as stated, fails on its own example: the third word of "1st quarter of 2021" is
  "of", the string handed to \<open>to_datetime\<close> is "of-03", and the call raises ValueError
  instead of giving 2021-03-01.
\<close>

theorem quarter_of_label_counterexample:
  "quarter_to_date ''1st quarter of 2021'' \<noteq> Inr \<lparr>ts_year = 2021, ts_month = 3, ts_day = 1\<rparr>
   \<and> quarter_to_date ''1st quarter of 2021'' = Inl ValueError"
  by (simp add: quarter_to_date_def split_def isspace_def quarter_month_map_def to_datetime_Y_m_def isdigit_def)

section \<open>Properties of the request\<close>

lemma update_absent: "k \<notin> fst ` set d \<Longrightarrow> AList.update k v d = d @ [(k, v)]"
  by (induction d) auto

text \<open>
  C10.  When the caller's \<open>dim_values\<close> has no key "Dim1", \<open>request\<close> with the data type
  "data" leaves the dict with one more item, "Dim1" mapped to "T", after the items it
  had, which are unchanged; the query string of the URL that is fetched is built from
  the dict so extended.
\<close>

theorem request_inserts_Dim1:
  assumes "''Dim1'' \<notin> fst ` set d"
  shows "request get indicator_code ''data'' (Some d) =
           (Some (d @ [(''Dim1'', ''T'')]),
            get (INE_API_BASE_URL @ ''/pindica.jsp?op=2&varcd='' @ indicator_code @ ''&lang=EN&''
                 @ join ''&'' (map (\<lambda>(key, value). key @ ''='' @ value) (d @ [(''Dim1'', ''T'')]))))"
  using assms by (simp add: request_def update_absent Let_def)

theorem request_inserts_Dim1_witness:
  "request (\<lambda>url. Inl HTTPError) ''0006341'' ''data'' (Some [(''Dim2'', ''PT''), (''Dim3'', ''1'')]) =
     (Some [(''Dim2'', ''PT''), (''Dim3'', ''1''), (''Dim1'', ''T'')], Inl HTTPError)"
  using request_inserts_Dim1 [of "[(''Dim2'', ''PT''), (''Dim3'', ''1'')]" "\<lambda>url. Inl HTTPError" "''0006341''"]
  by simp

section \<open>Properties of the geography tag\<close>

text \<open>
  C4, as the code has it.  For a description string, the marker "(NUTS - 2013)" is
  looked for first: the tag is "nuts-2013" when the description contains it, else
  "nuts-2002" when it contains "(NUTS - 2002)", else "national".
\<close>

theorem geo_level_tag:
  assumes "map_of merged ''description'' = Some (JStr d)"
  shows "add_geo_level merged =
           Inr (AList.update ''geo_level''
                  (JStr (if str_contains d ''(NUTS - 2013)'' then ''nuts-2013''
                         else if str_contains d ''(NUTS - 2002)'' then ''nuts-2002''
                         else ''national'')) merged)"
  using assms by (simp add: add_geo_level_def)

theorem geo_level_tag_witness:
  "add_geo_level [(''description'', JStr ''Population (NUTS - 2002)'')] =
     Inr [(''description'', JStr ''Population (NUTS - 2002)''), (''geo_level'', JStr ''nuts-2002'')]"
  using geo_level_tag [of "[(''description'', JStr ''Population (NUTS - 2002)'')]" "''Population (NUTS - 2002)''"]
  by (simp add: str_contains_def sublist_Cons_right)

text \<open>
  C4, as stated, fails on a description that contains both markers: it contains the
  marker of 2002 and is tagged "nuts-2013".
\<close>

theorem geo_level_both_markers_counterexample:
  "str_contains ''Population (NUTS - 2002) (NUTS - 2013)'' ''(NUTS - 2002)''
   \<and> add_geo_level [(''description'', JStr ''Population (NUTS - 2002) (NUTS - 2013)'')] =
     Inr [(''description'', JStr ''Population (NUTS - 2002) (NUTS - 2013)''), (''geo_level'', JStr ''nuts-2013'')]"
  by (simp add: add_geo_level_def str_contains_def sublist_Cons_right)

section \<open>Properties of the column axis\<close>

lemma dim_columns_labels:
  "dim_columns items dv dn = Inr cols \<Longrightarrow> list_all2 label_of (retained_items items dv dn) cols"
  by (induction items dv dn arbitrary: cols rule: dim_columns.induct)
    (auto simp add: retained_items_def label_of_def split: if_splits list.splits sum.splits)


lemma dim_columns_error: "dim_columns items dv dn = Inl e \<Longrightarrow> e = IndexError"
  by (induction items dv dn rule: dim_columns.induct) (auto split: if_splits list.splits sum.splits)


lemma col_index_loop_Inr:
  "col_index_loop categoria dv descs = Inr (iterables, names) \<Longrightarrow>
     names = map abrv (not_dim1 descs)
     \<and> (not_dim1 descs = [] \<or> categoria \<noteq> [])
     \<and> map (\<lambda>d. dim_columns (hd categoria) dv (dim_num d)) (not_dim1 descs) = map Inr iterables"
proof (induction descs arbitrary: iterables names)
  case Nil
  then show ?case by (simp add: not_dim1_def)
next
  case (Cons d descs)
  show ?case
  proof (cases "dim_num d = ''1''")
    case True
    then show ?thesis using Cons by (simp add: not_dim1_def)
  next
    case False
    then show ?thesis using Cons.prems Cons.IH
      by (auto simp add: not_dim1_def split: list.splits sum.splits prod.splits)
  qed
qed



lemma col_index_Inr:
  assumes "col_index dims dv = Inr ax"
  shows "\<exists>iterables. col_index_loop (Categoria_Dim dims) dv (Descricao_Dim dims)
            = Inr (iterables, map abrv (not_dim1 (Descricao_Dim dims)))
          \<and> iterables \<noteq> []
          \<and> level_names ax = ''Location'' # drop 1 (map abrv (not_dim1 (Descricao_Dim dims)))
          \<and> tuples ax = product_lists iterables"
proof -
  from assms obtain iterables names where
    loop: "col_index_loop (Categoria_Dim dims) dv (Descricao_Dim dims) = Inr (iterables, names)"
    by (auto simp add: col_index_def split: sum.splits)
  from col_index_loop_Inr [OF loop] have names: "names = map abrv (not_dim1 (Descricao_Dim dims))"
    by simp
  from assms loop have "iterables \<noteq> []"
    and "ax = \<lparr>level_names = ''Location'' # drop 1 names, tuples = product_lists iterables\<rparr>"
    by (auto simp add: col_index_def from_product_def split: if_splits)
  with loop names show ?thesis by auto
qed

lemma example_col_index:
  "col_index example_dimensoes []
     = Inr \<lparr>level_names = [''Location'', ''Sex''],
            tuples = [[''Portugal'', ''MF''], [''Portugal'', ''M'']]\<rparr>"
  by (simp add: example_dimensoes_def col_index_def retained_def startswith_def from_product_def)

text \<open>
  C3, as the code has it.  Whenever the column axis is built, the descriptors whose
  \<open>dim_num\<close> is "1" are skipped; the first level is named "Location" and its categories
  are the labels kept for the first descriptor that is not skipped (not those of
  dimension 1); every later level is named by the abbreviation of its descriptor; and
  the columns are the product of the lists of labels, in the order of the descriptors.
\<close>

theorem column_axis_levels:
  assumes "col_index dims dv = Inr ax"
  shows "\<exists>d ds items others iterables.
            not_dim1 (Descricao_Dim dims) = d # ds
          \<and> Categoria_Dim dims = items # others
          \<and> level_names ax = ''Location'' # map abrv ds
          \<and> map (\<lambda>d. dim_columns items dv (dim_num d)) (d # ds) = map Inr iterables
          \<and> tuples ax = product_lists iterables"
proof -
  from col_index_Inr [OF assms] obtain iterables where
    loop: "col_index_loop (Categoria_Dim dims) dv (Descricao_Dim dims)
            = Inr (iterables, map abrv (not_dim1 (Descricao_Dim dims)))"
    and ne: "iterables \<noteq> []"
    and names: "level_names ax = ''Location'' # drop 1 (map abrv (not_dim1 (Descricao_Dim dims)))"
    and ts: "tuples ax = product_lists iterables"
    by blast
  from col_index_loop_Inr [OF loop] have
    cat: "not_dim1 (Descricao_Dim dims) = [] \<or> Categoria_Dim dims \<noteq> []"
    and its: "map (\<lambda>d. dim_columns (hd (Categoria_Dim dims)) dv (dim_num d)) (not_dim1 (Descricao_Dim dims))
              = map Inr iterables"
    by simp_all
  from its ne have "not_dim1 (Descricao_Dim dims) \<noteq> []"
    by auto
  then obtain d ds where dds: "not_dim1 (Descricao_Dim dims) = d # ds"
    by (cases "not_dim1 (Descricao_Dim dims)") auto
  with cat obtain items others where io: "Categoria_Dim dims = items # others"
    by (cases "Categoria_Dim dims") auto
  from names dds have "level_names ax = ''Location'' # map abrv ds" by simp
  moreover from its dds io have "map (\<lambda>d. dim_columns items dv (dim_num d)) (d # ds) = map Inr iterables"
    by simp
  ultimately show ?thesis using dds io ts by blast
qed

theorem column_axis_levels_witness:
  "col_index example_dimensoes []
     = Inr \<lparr>level_names = [''Location'', ''Sex''],
            tuples = [[''Portugal'', ''MF''], [''Portugal'', ''M'']]\<rparr>
   \<and> (\<exists>d ds items others iterables.
          not_dim1 (Descricao_Dim example_dimensoes) = d # ds
        \<and> Categoria_Dim example_dimensoes = items # others
        \<and> [''Location'', ''Sex''] = ''Location'' # map abrv ds
        \<and> map (\<lambda>d. dim_columns items [] (dim_num d)) (d # ds) = map Inr iterables
        \<and> [[''Portugal'', ''MF''], [''Portugal'', ''M'']] = product_lists iterables)"
  using column_axis_levels [OF example_col_index] example_col_index by simp

text \<open>
  C3, as stated, fails on a payload whose dimension 1 is the reference period: the
  first level, "Location", holds the label "Portugal" of dimension 2, while the only
  category of dimension 1 is "2011".
\<close>

theorem location_level_counterexample:
  "col_index example_dimensoes []
     = Inr \<lparr>level_names = [''Location'', ''Sex''],
            tuples = [[''Portugal'', ''MF''], [''Portugal'', ''M'']]\<rparr>
   \<and> dim_columns
        [(''Dim_Num1_S7A2011'', [\<lparr>categ_dsg = ''2011''\<rparr>]),
         (''Dim_Num2_PT'', [\<lparr>categ_dsg = ''Portugal''\<rparr>]),
         (''Dim_Num3_T'', [\<lparr>categ_dsg = ''MF''\<rparr>]),
         (''Dim_Num3_1'', [\<lparr>categ_dsg = ''M''\<rparr>])] [] ''1'' = Inr [''2011'']"
  by (simp add: example_dimensoes_def col_index_def retained_def startswith_def from_product_def)

lemma iterables_lengths:
  assumes "map (\<lambda>d. dim_columns items dv (dim_num d)) ds = map Inr iterables"
  shows "map length iterables = map (\<lambda>d. length (retained_items items dv (dim_num d))) ds"
  using assms
proof (induction ds arbitrary: iterables)
  case Nil
  then show ?case by simp
next
  case (Cons d ds)
  then obtain cols rest where its: "iterables = cols # rest"
    and cols: "dim_columns items dv (dim_num d) = Inr cols"
    and rest: "map (\<lambda>d. dim_columns items dv (dim_num d)) ds = map Inr rest"
    by (cases iterables) auto
  from dim_columns_labels [OF cols] have "length cols = length (retained_items items dv (dim_num d))"
    by (simp add: list_all2_lengthD)
  with Cons.IH [OF rest] its show ?case by simp
qed

lemma length_product_lists_prod: "length (product_lists xss) = prod_list (map length xss)"
  by (induction xss) (simp_all add: length_concat o_def sum_list_triv)

text \<open>
  Whenever the axis is built, the number of its columns is the product of the numbers of
  items kept for the descriptors other than dimension 1.
\<close>

lemma column_axis_cardinality_built:
  assumes "col_index dims dv = Inr ax"
  shows "length (tuples ax)
     = prod_list (map (\<lambda>d. length (retained_items (hd (Categoria_Dim dims)) dv (dim_num d)))
                   (not_dim1 (Descricao_Dim dims)))"
proof -
  from col_index_Inr [OF assms] obtain iterables where
    loop: "col_index_loop (Categoria_Dim dims) dv (Descricao_Dim dims)
            = Inr (iterables, map abrv (not_dim1 (Descricao_Dim dims)))"
    and ts: "tuples ax = product_lists iterables"
    by blast
  from col_index_loop_Inr [OF loop] have
    "map (\<lambda>d. dim_columns (hd (Categoria_Dim dims)) dv (dim_num d)) (not_dim1 (Descricao_Dim dims))
       = map Inr iterables"
    by simp
  from iterables_lengths [OF this] ts show ?thesis
    by (simp add: length_product_lists_prod)
qed




section \<open>Properties of the table\<close>

lemma lookup_all_length: "lookup_all stat ks = Inr vs \<Longrightarrow> length vs = length ks"
  by (induction ks arbitrary: vs) (auto split: option.splits sum.splits)

lemma stat_key_length:
  assumes "stat_key n stat = Inr key"
  shows "length key = 1 + (n + 1 - 3)"
proof -
  from assms have "length key = length (''geocod'' # map (\<lambda>i. ''dim_'' @ str_nat i @ ''_t'') [3 ..< n + 1])"
    unfolding stat_key_def by (rule lookup_all_length)
  then show ?thesis by (simp del: upt_Suc)
qed

lemma col_index_nlevels:
  assumes "col_index dims dv = Inr ax"
  shows "length (level_names ax) = length (not_dim1 (Descricao_Dim dims))"
    and "not_dim1 (Descricao_Dim dims) \<noteq> []"
proof -
  from col_index_Inr [OF assms] obtain iterables where
    loop: "col_index_loop (Categoria_Dim dims) dv (Descricao_Dim dims)
            = Inr (iterables, map abrv (not_dim1 (Descricao_Dim dims)))"
    and ne: "iterables \<noteq> []"
    and names: "level_names ax = ''Location'' # drop 1 (map abrv (not_dim1 (Descricao_Dim dims)))"
    by blast
  from col_index_loop_Inr [OF loop] have
    "map (\<lambda>d. dim_columns (hd (Categoria_Dim dims)) dv (dim_num d)) (not_dim1 (Descricao_Dim dims))
              = map Inr iterables"
    by simp
  with ne show "not_dim1 (Descricao_Dim dims) \<noteq> []" by auto
  with names show "length (level_names ax) = length (not_dim1 (Descricao_Dim dims))"
    by (cases "not_dim1 (Descricao_Dim dims)") simp_all
qed

lemma example_sorted_columns:
  "sort [[''Portugal'', ''MF''], [''Portugal'', ''M'']] = [[''Portugal'', ''M''], [''Portugal'', ''MF'']]"
  by code_simp

lemma example_stat_key:
  "stat_key 3 [(''geocod'', ''PT''), (''geodsg'', ''Portugal''), (''dim_3'', ''T''), (''dim_3_t'', ''MF''),
         (''valor'', ''10295909'')] = Inr [''PT'', ''MF'']"
  by (simp add: stat_key_def str_nat.simps upt_rec)

lemma example_length: "length (Descricao_Dim example_dimensoes) = 3"
  by (simp add: example_dimensoes_def)

lemma enlarge_append: "enlarge cols (ks @ ks') = enlarge (enlarge cols ks) ks'"
  by (simp add: enlarge_def)

lemma set_enlarge: "set (enlarge cols ks) = set cols \<union> set ks"
  unfolding enlarge_def by (induction ks arbitrary: cols) auto

lemma map_of_rev_append: "map_of (rev (A @ B)) = map_of (rev A) ++ map_of (rev B)"
  by (simp add: map_of_append)

lemma loc_setitem_assign:
  assumes "length key = length (column_names df)"
  shows "loc_setitem df row key v =
     Inr (df\<lparr>columns := enlarge (columns df) [key],
             cells := cells df ++ map_of (rev [((row, key), v)])\<rparr>)"
  using assms by (simp add: loc_setitem_def enlarge_def)

lemma fill_period_assignments:
  assumes "\<And>stat. stat \<in> set stats \<Longrightarrow>
             \<exists>key. stat_key n stat = Inr key \<and> length key = length (column_names df)"
  shows "fill_period n date df stats =
     Inr (df\<lparr>columns := enlarge (columns df) (map (\<lambda>a. snd (fst a)) (period_assignments n date stats)),
             cells := cells df ++ map_of (rev (period_assignments n date stats))\<rparr>)"
  using assms
proof (induction stats arbitrary: df)
  case Nil
  then show ?case by (simp add: period_assignments_def enlarge_def)
next
  case (Cons s stats)
  from Cons.prems [of s] obtain k where k: "stat_key n s = Inr k"
    and lk: "length k = length (column_names df)" by auto
  have rest: "\<And>stat. stat \<in> set stats \<Longrightarrow>
      \<exists>key. stat_key n stat = Inr key \<and> length key = length (column_names df)"
    using Cons.prems by simp
  show ?case
  proof (cases "map_of s ''valor''")
    case None
    then have "period_assignments n date (s # stats) = period_assignments n date stats"
      by (simp add: period_assignments_def record_assignment_def k)
    with None k Cons.IH [OF rest] show ?thesis by simp
  next
    case (Some v)
    let ?df1 = "df\<lparr>columns := enlarge (columns df) [k],
             cells := cells df ++ map_of (rev [((date, k), v)])\<rparr>"
    have pa: "period_assignments n date (s # stats) = [((date, k), v)] @ period_assignments n date stats"
      by (simp add: period_assignments_def record_assignment_def k Some)
    have "fill_period n date ?df1 stats =
      Inr (?df1\<lparr>columns := enlarge (columns ?df1) (map (\<lambda>a. snd (fst a)) (period_assignments n date stats)),
             cells := cells ?df1 ++ map_of (rev (period_assignments n date stats))\<rparr>)"
      by (rule Cons.IH) (use rest in simp)
    moreover have "fill_period n date df (s # stats) = fill_period n date ?df1 stats"
      using k Some loc_setitem_assign [OF lk, of date v] by simp
    ultimately show ?thesis
      unfolding pa map_of_rev_append
      by (simp add: enlarge_append [symmetric] del: map_of.simps rev.simps)
  qed
qed


lemma fill_table_assignments:
  assumes "\<And>date stats stat. (date, stats) \<in> set dados \<Longrightarrow> stat \<in> set stats \<Longrightarrow>
             \<exists>key. stat_key n stat = Inr key \<and> length key = length (column_names df)"
  shows "fill_table n df dados =
     Inr (df\<lparr>columns := enlarge (columns df) (map (\<lambda>a. snd (fst a)) (assignments n dados)),
             cells := cells df ++ map_of (rev (assignments n dados))\<rparr>)"
  using assms
proof (induction dados arbitrary: df)
  case Nil
  then show ?case by (simp add: assignments_def enlarge_def)
next
  case (Cons p dados)
  obtain d ss where p: "p = (d, ss)" by (cases p)
  let ?A = "period_assignments n d ss"
  let ?df1 = "df\<lparr>columns := enlarge (columns df) (map (\<lambda>a. snd (fst a)) ?A),
             cells := cells df ++ map_of (rev ?A)\<rparr>"
  have first: "fill_period n d df ss = Inr ?df1"
  proof (rule fill_period_assignments)
    fix stat assume "stat \<in> set ss"
    then show "\<exists>key. stat_key n stat = Inr key \<and> length key = length (column_names df)"
      using Cons.prems [of d ss stat] by (simp add: p)
  qed
  have rest: "fill_table n ?df1 dados =
     Inr (?df1\<lparr>columns := enlarge (columns ?df1) (map (\<lambda>a. snd (fst a)) (assignments n dados)),
             cells := cells ?df1 ++ map_of (rev (assignments n dados))\<rparr>)"
  proof (rule Cons.IH)
    fix date stats stat assume "(date, stats) \<in> set dados" "stat \<in> set stats"
    then show "\<exists>key. stat_key n stat = Inr key \<and> length key = length (column_names ?df1)"
      using Cons.prems [of date stats stat] by simp
  qed
  have A: "assignments n (p # dados) = ?A @ assignments n dados"
    by (simp add: assignments_def p)
  from first rest show ?case
    unfolding A map_of_rev_append
    by (simp add: p enlarge_append [symmetric] del: map_of.simps rev.simps)
qed

lemma build_table_assignments:
  assumes ax: "col_index dims dv = Inr ax"
    and one: "length (not_dim1 (Descricao_Dim dims)) + 1 = length (Descricao_Dim dims)"
    and fields: "\<And>date stats stat. (date, stats) \<in> set dados \<Longrightarrow> stat \<in> set stats \<Longrightarrow>
                   \<exists>key. stat_key (length (Descricao_Dim dims)) stat = Inr key"
  shows "build_table dims dv dados =
     Inr \<lparr>row_index = map fst dados, column_names = level_names ax,
          columns = enlarge (sort (tuples ax))
                      (map (\<lambda>a. snd (fst a)) (assignments (length (Descricao_Dim dims)) dados)),
          cells = map_of (rev (assignments (length (Descricao_Dim dims)) dados))\<rparr>"
proof -
  let ?n = "length (Descricao_Dim dims)"
  let ?df0 = "new_dataframe (map fst dados) ax"
  have names0: "length (column_names ?df0) = length (not_dim1 (Descricao_Dim dims))"
    using col_index_nlevels(1) [OF ax] by (simp add: new_dataframe_def)
  have key_len: "length key = length (column_names ?df0)" if "stat_key ?n stat = Inr key" for stat key
    using stat_key_length [OF that] names0 one col_index_nlevels(2) [OF ax]
    by (cases "not_dim1 (Descricao_Dim dims)") auto
  have "fill_table ?n ?df0 dados =
     Inr (?df0\<lparr>columns := enlarge (columns ?df0) (map (\<lambda>a. snd (fst a)) (assignments ?n dados)),
             cells := cells ?df0 ++ map_of (rev (assignments ?n dados))\<rparr>)"
    by (rule fill_table_assignments) (use fields key_len in blast)
  with ax show ?thesis
    by (simp add: build_table_def new_dataframe_def)
qed

lemma map_of_rev_without:
  assumes "c \<noteq> fst x"
  shows "map_of (rev (A @ x # B)) c = map_of (rev (A @ B)) c"
  using assms by (cases x) (auto simp add: map_of_append map_add_def split: option.splits)

lemma map_of_rev_last:
  assumes "c \<notin> fst ` set B"
  shows "map_of (rev (A @ (c, v) # B)) c = Some v"
proof -
  from assms have "map_of (rev B) c = None"
    by (simp add: map_of_eq_None_iff)
  then show ?thesis
    by (simp add: map_of_append map_add_def)
qed

lemma assignments_split:
  "assignments n (pre @ (date, before @ stat # after) # post) =
     (assignments n pre @ period_assignments n date before) @ record_assignment n date stat
       @ (period_assignments n date after @ assignments n post)"
  by (simp add: assignments_def period_assignments_def)

lemma assignments_without:
  "assignments n (pre @ (date, before @ after) # post) =
     (assignments n pre @ period_assignments n date before)
       @ (period_assignments n date after @ assignments n post)"
  by (simp add: assignments_def period_assignments_def)

lemma assignments_dates: "((d, k), v) \<in> set (assignments n dados) \<Longrightarrow> d \<in> fst ` set dados"
  by (force simp add: assignments_def period_assignments_def record_assignment_def
      split: sum.splits option.splits)

lemma period_assignments_keys:
  "((d, k), v) \<in> set (period_assignments n date stats) \<Longrightarrow>
     \<exists>s \<in> set stats. stat_key n s = Inr k \<and> map_of s ''valor'' = Some v"
  by (auto simp add: period_assignments_def record_assignment_def split: sum.splits option.splits)

text \<open>
  C2, as the code has it.  The loop assigns every record that has a "valor" at
  (period, column key) and never tests whether the key is among the built columns;
  assignment by label enlarges the frame by a column when the key is not there.  So,
  when the axis is built, exactly one descriptor is dimension 1 (the key then has one
  component per level) and every record has the fields of its key, the table is built
  without an error and is exactly the frame over the periods and the sorted built
  columns to which the assignments of the records with a value have been applied in
  order.  For any one record of the input: if it has no "valor", the table is the one
  built without it; if it has one, its key is a column of the table, the cell of its
  period under that column holds its value (unless a later record of the period with
  the same key and a value replaces it), and everything else, the rows, the names of
  the levels, every other column and every other cell, is exactly as if the record were
  absent from the input.
\<close>

theorem record_is_stored_rest_unchanged:
  assumes ax: "col_index dims dv = Inr ax"
    and one: "length (not_dim1 (Descricao_Dim dims)) + 1 = length (Descricao_Dim dims)"
    and fields: "\<And>d stats s. (d, stats) \<in> set dados \<Longrightarrow> s \<in> set stats \<Longrightarrow>
                   \<exists>key. stat_key (length (Descricao_Dim dims)) s = Inr key"
    and dist: "distinct (map fst dados)"
    and dados: "dados = pre @ (date, before @ stat # after) # post"
  shows "\<exists>df df' key.
       stat_key (length (Descricao_Dim dims)) stat = Inr key
     \<and> build_table dims dv dados = Inr df
     \<and> build_table dims dv (pre @ (date, before @ after) # post) = Inr df'
     \<and> df = \<lparr>row_index = map fst dados, column_names = level_names ax,
              columns = enlarge (sort (tuples ax))
                          (map (\<lambda>a. snd (fst a)) (assignments (length (Descricao_Dim dims)) dados)),
              cells = map_of (rev (assignments (length (Descricao_Dim dims)) dados))\<rparr>
     \<and> (case map_of stat ''valor'' of
          None \<Rightarrow> df = df'
        | Some v \<Rightarrow>
            row_index df = row_index df' \<and> column_names df = column_names df'
          \<and> set (columns df) = insert key (set (columns df'))
          \<and> (\<forall>c. c \<noteq> (date, key) \<longrightarrow> cells df c = cells df' c)
          \<and> (\<exists>w. cells df (date, key) = Some w)
          \<and> (list_all (\<lambda>s. stat_key (length (Descricao_Dim dims)) s \<noteq> Inr key
                             \<or> map_of s ''valor'' = None) after
               \<longrightarrow> cells df (date, key) = Some v))"
proof -
  let ?n = "length (Descricao_Dim dims)"
  let ?dados' = "pre @ (date, before @ after) # post"
  let ?A1 = "assignments ?n pre @ period_assignments ?n date before"
  let ?A2 = "period_assignments ?n date after @ assignments ?n post"
  let ?df = "\<lparr>row_index = map fst dados, column_names = level_names ax,
              columns = enlarge (sort (tuples ax)) (map (\<lambda>a. snd (fst a)) (assignments ?n dados)),
              cells = map_of (rev (assignments ?n dados))\<rparr>"
  let ?df' = "\<lparr>row_index = map fst ?dados', column_names = level_names ax,
              columns = enlarge (sort (tuples ax)) (map (\<lambda>a. snd (fst a)) (assignments ?n ?dados')),
              cells = map_of (rev (assignments ?n ?dados'))\<rparr>"
  from fields [of date "before @ stat # after" stat] obtain key where
    key: "stat_key ?n stat = Inr key"
    by (auto simp add: dados)
  have built: "build_table dims dv dados = Inr ?df"
    by (rule build_table_assignments [OF ax one]) (rule fields)
  have built': "build_table dims dv ?dados' = Inr ?df'"
  proof (rule build_table_assignments [OF ax one])
    fix d stats s assume "(d, stats) \<in> set ?dados'" "s \<in> set stats"
    then consider "(d, stats) \<in> set dados"
      | "d = date" "stats = before @ after" "s \<in> set (before @ stat # after)"
      by (auto simp add: dados)
    then show "\<exists>key. stat_key ?n s = Inr key"
    proof cases
      case 1
      then show ?thesis using \<open>s \<in> set stats\<close> by (rule fields)
    next
      case 2
      from fields [of date "before @ stat # after" s] 2(3) show ?thesis
        by (simp add: dados)
    qed
  qed
  have rows: "map fst ?dados' = map fst dados"
    by (simp add: dados)
  have A': "assignments ?n ?dados' = ?A1 @ ?A2"
    by (rule assignments_without)
  have A: "assignments ?n dados = ?A1 @ record_assignment ?n date stat @ ?A2"
    unfolding dados by (rule assignments_split)
  have rest: "case map_of stat ''valor'' of
          None \<Rightarrow> ?df = ?df'
        | Some v \<Rightarrow>
            row_index ?df = row_index ?df' \<and> column_names ?df = column_names ?df'
          \<and> set (columns ?df) = insert key (set (columns ?df'))
          \<and> (\<forall>c. c \<noteq> (date, key) \<longrightarrow> cells ?df c = cells ?df' c)
          \<and> (\<exists>w. cells ?df (date, key) = Some w)
          \<and> (list_all (\<lambda>s. stat_key ?n s \<noteq> Inr key \<or> map_of s ''valor'' = None) after
               \<longrightarrow> cells ?df (date, key) = Some v)"
  proof (cases "map_of stat ''valor''")
    case None
    then have "record_assignment ?n date stat = []"
      by (simp add: record_assignment_def key)
    with A A' have "assignments ?n dados = assignments ?n ?dados'" by simp
    with None rows show ?thesis by simp
  next
    case (Some v)
    then have ra: "record_assignment ?n date stat = [((date, key), v)]"
      by (simp add: record_assignment_def key)
    have Av: "assignments ?n dados = ?A1 @ ((date, key), v) # ?A2"
      using A ra by simp
    have cols: "set (columns ?df) = insert key (set (columns ?df'))"
      unfolding Av A' by (auto simp add: set_enlarge)
    have frame: "cells ?df c = cells ?df' c" if "c \<noteq> (date, key)" for c
      unfolding Av A' using that map_of_rev_without [of c "((date, key), v)" ?A1 ?A2]
      by simp
    have "(date, key) \<in> fst ` set (rev (assignments ?n dados))"
      unfolding Av by force
    then have held: "\<exists>w. cells ?df (date, key) = Some w"
      by (cases "map_of (rev (assignments ?n dados)) (date, key)")
        (simp_all add: map_of_eq_None_iff del: set_rev)
    have last: "cells ?df (date, key) = Some v"
      if later: "list_all (\<lambda>s. stat_key ?n s \<noteq> Inr key \<or> map_of s ''valor'' = None) after"
    proof -
      have "(date, key) \<notin> fst ` set ?A2"
      proof
        assume "(date, key) \<in> fst ` set ?A2"
        then have "\<exists>w. ((date, key), w) \<in> set (period_assignments ?n date after)
            \<or> ((date, key), w) \<in> set (assignments ?n post)"
          by force
        then obtain w where "((date, key), w) \<in> set (period_assignments ?n date after)
            \<or> ((date, key), w) \<in> set (assignments ?n post)"
          by blast
        then show False
        proof
          assume "((date, key), w) \<in> set (period_assignments ?n date after)"
          from period_assignments_keys [OF this] later show False
            by (auto simp add: list_all_iff)
        next
          assume "((date, key), w) \<in> set (assignments ?n post)"
          from assignments_dates [OF this] dist show False
            by (auto simp add: dados)
        qed
      qed
      then show ?thesis
        unfolding Av using map_of_rev_last [of "(date, key)" ?A2 ?A1 v] by simp
    qed
    from Some rows cols frame held last show ?thesis by simp
  qed
  from key built built' rest show ?thesis
    by (intro exI [of _ ?df] exI [of _ ?df'] exI [of _ key]) (simp only: simp_thms)
qed

theorem record_is_stored_rest_unchanged_witness:
  "\<exists>df df'. build_table example_dimensoes [] example_dados = Inr df
     \<and> build_table example_dimensoes [] [(''2011'', [])] = Inr df'
     \<and> set (columns df) = insert [''PT'', ''MF''] (set (columns df'))
     \<and> cells df (''2011'', [''PT'', ''MF'']) = Some ''10295909''
     \<and> cells df (''2011'', [''Portugal'', ''MF'']) = cells df' (''2011'', [''Portugal'', ''MF''])"
proof -
  let ?stat = "[(''geocod'', ''PT''), (''geodsg'', ''Portugal''), (''dim_3'', ''T''),
      (''dim_3_t'', ''MF''), (''valor'', ''10295909'')]"
  have one: "length (not_dim1 (Descricao_Dim example_dimensoes)) + 1
      = length (Descricao_Dim example_dimensoes)"
    by (simp add: example_dimensoes_def not_dim1_def)
  have dist: "distinct (map fst example_dados)"
    by (simp add: example_dados_def)
  have dados: "example_dados = [] @ (''2011'', [] @ ?stat # []) # []"
    by (simp add: example_dados_def)
  have "\<exists>df df' key.
       stat_key (length (Descricao_Dim example_dimensoes)) ?stat = Inr key
     \<and> build_table example_dimensoes [] example_dados = Inr df
     \<and> build_table example_dimensoes [] ([] @ (''2011'', [] @ []) # []) = Inr df'
     \<and> df = \<lparr>row_index = map fst example_dados,
              column_names = level_names \<lparr>level_names = [''Location'', ''Sex''],
                tuples = [[''Portugal'', ''MF''], [''Portugal'', ''M'']]\<rparr>,
              columns = enlarge (sort (tuples \<lparr>level_names = [''Location'', ''Sex''],
                tuples = [[''Portugal'', ''MF''], [''Portugal'', ''M'']]\<rparr>))
                          (map (\<lambda>a. snd (fst a))
                             (assignments (length (Descricao_Dim example_dimensoes)) example_dados)),
              cells = map_of (rev (assignments (length (Descricao_Dim example_dimensoes)) example_dados))\<rparr>
     \<and> (case map_of ?stat ''valor'' of
          None \<Rightarrow> df = df'
        | Some v \<Rightarrow>
            row_index df = row_index df' \<and> column_names df = column_names df'
          \<and> set (columns df) = insert key (set (columns df'))
          \<and> (\<forall>c. c \<noteq> (''2011'', key) \<longrightarrow> cells df c = cells df' c)
          \<and> (\<exists>w. cells df (''2011'', key) = Some w)
          \<and> (list_all (\<lambda>s. stat_key (length (Descricao_Dim example_dimensoes)) s \<noteq> Inr key
                             \<or> map_of s ''valor'' = None) []
               \<longrightarrow> cells df (''2011'', key) = Some v))"
  proof (rule record_is_stored_rest_unchanged [OF example_col_index one _ dist dados])
    fix d stats s
    assume "(d, stats) \<in> set example_dados" "s \<in> set stats"
    then show "\<exists>key. stat_key (length (Descricao_Dim example_dimensoes)) s = Inr key"
      by (auto simp add: example_dados_def example_length example_stat_key)
  qed
  then obtain df df' where
    "build_table example_dimensoes [] example_dados = Inr df"
    "build_table example_dimensoes [] [(''2011'', [])] = Inr df'"
    "set (columns df) = insert [''PT'', ''MF''] (set (columns df'))"
    "\<forall>c. c \<noteq> (''2011'', [''PT'', ''MF'']) \<longrightarrow> cells df c = cells df' c"
    "cells df (''2011'', [''PT'', ''MF'']) = Some ''10295909''"
    by (auto simp add: example_length example_stat_key)
  then show ?thesis by auto
qed

text \<open>
  C2, as stated, fails on the example payloads: the record's key (PT, MF) is not among
  the built columns (Portugal, MF) and (Portugal, M), and the table gets a third column
  (PT, MF) that holds the record's value, which the table built without the record does
  not have.
\<close>

theorem unmatched_record_counterexample:
  "[''PT'', ''MF''] \<notin> set [[''Portugal'', ''MF''], [''Portugal'', ''M'']]
   \<and> map_sum id columns (build_table example_dimensoes [] example_dados)
       = Inr [[''Portugal'', ''M''], [''Portugal'', ''MF''], [''PT'', ''MF'']]
   \<and> map_sum id (\<lambda>df. cells df (''2011'', [''PT'', ''MF''])) (build_table example_dimensoes [] example_dados)
       = Inr (Some ''10295909'')
   \<and> map_sum id columns (build_table example_dimensoes [] [(''2011'', [])])
       = Inr [[''Portugal'', ''M''], [''Portugal'', ''MF'']]"
  by (simp add: build_table_def example_col_index example_dados_def new_dataframe_def
      example_sorted_columns example_stat_key example_length loc_setitem_def)

section \<open>Properties of the metadata merger\<close>













section \<open>Properties of the export\<close>








end
